theory Spec2Isabelle
  imports Main "HOL-Library.Sublist"
begin

section \<open>Items, members, memberships and errors\<close>

text \<open>
  The fields of \<open>Item\<close>, \<open>Member\<close> and \<open>ItemMembership\<close> that the move task, the
  creation of an item and the membership housekeeping read. A path is the string the code
  stores: identifiers joined by a dot.
\<close>

datatype item_type = Folder | Document | OtherLeaf

record item =
  item_id :: string
  item_name :: string
  item_path :: string
  item_type :: item_type

record member =
  member_id :: string

datatype permission = Read | Write | Admin

record membership =
  memberId :: string
  itemPath :: string
  permission :: permission

text \<open>
  The errors the sources import from \<open>util/graasp-error\<close> and \<open>utils/errors\<close>, with their
  arguments: the first six in \<open>move-item-task.ts\<close>, the others in the route tests.
\<close>

datatype graasp_error =
    ItemNotFound string
  | UserCannotAdminItem string
  | TooManyDescendants string
  | InvalidMoveTarget "string option"
  | UserCannotWriteItem string
  | HierarchyTooDeep
  | ItemNotFolder string
  | TooManyChildren
  | MemberCannotAccess string
  | MemberCannotWriteItem string
  | MemberNotFound string
  | CannotModifyOtherMembers string

text \<open>
  \<open>MAX_DESCENDANTS_FOR_MOVE\<close> and \<open>MAX_TREE_LEVELS\<close> come from \<open>util/config\<close>, which is
  not among the sources: they are parameters.
\<close>

record config =
  MAX_DESCENDANTS_FOR_MOVE :: nat
  MAX_TREE_LEVELS :: nat

section \<open>Paths\<close>

definition sep :: char where
  "sep = CHR ''.''"

text \<open>
  Modelled from the spec: the path codec (\<open>BaseItem.parentPath\<close>, \<open>BaseItem.itemDepth\<close> of
  \<open>base-item.ts\<close>) is not among the sources. \<open>decode\<close> splits a path at the separator,
  \<open>depth\<close> is the number of identifiers, \<open>parentPath\<close> removes the last identifier and is
  none for a single identifier, \<open>isDescendantOrSelf\<close> holds when the candidate equals the
  ancestor or starts with the ancestor followed by the separator.
\<close>

fun decode :: "string \<Rightarrow> string list" where
  "decode [] = [[]]"
| "decode (c # cs) =
     (if c = sep then [] # decode cs
      else (c # hd (decode cs)) # tl (decode cs))"

fun encode :: "string list \<Rightarrow> string" where
  "encode [] = []"
| "encode [x] = x"
| "encode (x # y # ys) = x @ sep # encode (y # ys)"

definition depth :: "string \<Rightarrow> nat" where
  "depth p = length (decode p)"

definition parentPath_of :: "string \<Rightarrow> string option" where
  "parentPath_of p =
     (case decode p of
        [] \<Rightarrow> None
      | [x] \<Rightarrow> None
      | x # y # ys \<Rightarrow> Some (encode (butlast (x # y # ys))))"

definition isDescendantOrSelf :: "string \<Rightarrow> string \<Rightarrow> bool" where
  "isDescendantOrSelf candidatePath ancestorPath =
     (candidatePath = ancestorPath \<or> prefix (ancestorPath @ [sep]) candidatePath)"

definition parentPath :: "item \<Rightarrow> string option" where
  "parentPath it = parentPath_of (item_path it)"

definition itemDepth :: "item \<Rightarrow> nat" where
  "itemDepth it = depth (item_path it)"

section \<open>The services a move task is built with\<close>

text \<open>
  \<open>MoveItemTask\<close> receives an \<open>ItemService\<close> and an \<open>ItemMembershipService\<close> through its
  constructor and a \<open>DatabaseTransactionHandler\<close> through \<open>run\<close>. Their code
  (\<open>db-service.ts\<close>) is not among the sources, so the methods the task calls are the fields
  of a record, over any type \<open>'db\<close> of database states: what is proved of the task for an
  arbitrary \<open>sv\<close> holds for every implementation of the services. The reading methods
  return a value, the writing ones the new database state.
\<close>

record 'db services =
  itemService_get :: "string \<Rightarrow> 'db \<Rightarrow> item option"
  itemService_getNumberOfDescendants :: "item \<Rightarrow> 'db \<Rightarrow> nat"
  itemService_getNumberOfLevelsToFarthestChild :: "item \<Rightarrow> 'db \<Rightarrow> nat"
  itemService_move :: "item \<Rightarrow> 'db \<Rightarrow> item option \<Rightarrow> 'db"
  itemMembershipService_canAdmin :: "member \<Rightarrow> item \<Rightarrow> 'db \<Rightarrow> bool"
  itemMembershipService_canWrite :: "member \<Rightarrow> item \<Rightarrow> 'db \<Rightarrow> bool"
  itemMembershipService_moveHousekeeping ::
    "item \<Rightarrow> member \<Rightarrow> 'db \<Rightarrow> item option \<Rightarrow> membership list \<times> membership list"
  itemMembershipService_createMany :: "membership list \<Rightarrow> 'db \<Rightarrow> 'db"
  itemMembershipService_deleteManyMatching :: "membership list \<Rightarrow> 'db \<Rightarrow> 'db"

text \<open>
  The state a task runs in: the database, and the calls \<open>moveItem\<close> has made on the two
  services, oldest first, each with the arguments it was given.
\<close>

datatype 'db call =
    CallMoveHousekeeping item 'db "item option"
  | CallMove item "item option"
  | CallCreateMany "membership list"
  | CallDeleteManyMatching "membership list"

record 'db world =
  db :: 'db
  calls :: "'db call list"

section \<open>MoveItemTask\<close>

datatype task_status = NEW | RUNNING | OK

record move_item_task =
  actor :: member
  targetId :: string
  parentItemId :: "string option"
  status :: task_status
  message :: "string option"

text \<open>The constructor: \<open>parentItemId\<close> is optional.\<close>

definition MoveItemTask :: "member \<Rightarrow> string \<Rightarrow> string option \<Rightarrow> move_item_task" where
  "MoveItemTask m itemId parentId =
     \<lparr>actor = m, targetId = itemId, parentItemId = parentId, status = NEW, message = None\<rparr>"

text \<open>
  JavaScript's truth value of an optional string: \<open>undefined\<close>, \<open>null\<close> and the empty string
  are false.
\<close>

definition truthy :: "string option \<Rightarrow> bool" where
  "truthy s = (case s of None \<Rightarrow> False | Some x \<Rightarrow> x \<noteq> [])"

text \<open>
  \<open>moveItem\<close> (lines 97-109): the housekeeping is computed on the database as it is, then the
  item and its subtree are moved, then the inserts are created if there are any, then the
  deletes are removed if there are any.
\<close>

definition moveItem ::
  "'db services \<Rightarrow> member \<Rightarrow> item \<Rightarrow> 'db world \<Rightarrow> item option \<Rightarrow> 'db world" where
  "moveItem sv act it w parentItem =
     (let (inserts, deletes) = itemMembershipService_moveHousekeeping sv it act (db w) parentItem;
          w0 = w\<lparr>calls := calls w @ [CallMoveHousekeeping it (db w) parentItem]\<rparr>;
          w1 = w0\<lparr>db := itemService_move sv it (db w0) parentItem,
                  calls := calls w0 @ [CallMove it parentItem]\<rparr>;
          w2 = (if inserts \<noteq> []
                then w1\<lparr>db := itemMembershipService_createMany sv inserts (db w1),
                        calls := calls w1 @ [CallCreateMany inserts]\<rparr>
                else w1);
          w3 = (if deletes \<noteq> []
                then w2\<lparr>db := itemMembershipService_deleteManyMatching sv deletes (db w2),
                        calls := calls w2 @ [CallDeleteManyMatching deletes]\<rparr>
                else w2)
      in w3)"

text \<open>
  \<open>run\<close> (lines 28-84). A \<open>throw\<close> is the left injection; the task then keeps the status
  \<open>RUNNING\<close> it was given on entry and the state is the one \<open>run\<close> was called in, since
  nothing was written before the throw.
\<close>

definition run ::
  "config \<Rightarrow> 'db services \<Rightarrow> move_item_task \<Rightarrow> 'db world
     \<Rightarrow> (graasp_error + unit) \<times> move_item_task \<times> 'db world" where
  "run cfg sv task w =
     (let t = task\<lparr>status := RUNNING\<rparr> in
      case itemService_get sv (targetId t) (db w) of
        None \<Rightarrow> (Inl (ItemNotFound (targetId t)), t, w)
      | Some it \<Rightarrow>
          if \<not> itemMembershipService_canAdmin sv (actor t) it (db w)
          then (Inl (UserCannotAdminItem (targetId t)), t, w)
          else if itemService_getNumberOfDescendants sv it (db w) > MAX_DESCENDANTS_FOR_MOVE cfg
          then (Inl (TooManyDescendants (targetId t)), t, w)
          else
            (case (if truthy (parentItemId t) then parentItemId t else None) of
               Some pid \<Rightarrow>
                (case itemService_get sv pid (db w) of
                   None \<Rightarrow> (Inl (ItemNotFound pid), t, w)
                 | Some parentItem \<Rightarrow>
                     if prefix (item_path it) (item_path parentItem)
                        \<or> parentPath it = Some (item_path parentItem)
                     then (Inl (InvalidMoveTarget (Some pid)), t, w)
                     else if \<not> itemMembershipService_canWrite sv (actor t) parentItem (db w)
                     then (Inl (UserCannotWriteItem pid), t, w)
                     else if itemDepth parentItem + 1
                               + itemService_getNumberOfLevelsToFarthestChild sv it (db w)
                             > MAX_TREE_LEVELS cfg
                     then (Inl HierarchyTooDeep, t, w)
                     else (Inr (),
                           t\<lparr>message := Some (''new parent '' @ pid), status := OK\<rparr>,
                           moveItem sv (actor t) it w (Some parentItem)))
             | None \<Rightarrow>
                 if \<not> truthy (parentPath it)
                 then (Inl (InvalidMoveTarget None), t, w)
                 else (Inr (), t\<lparr>status := OK\<rparr>, moveItem sv (actor t) it w None)))"

section \<open>A store of items and memberships\<close>

text \<open>
  The persisted state: the items table and the memberships table, as lists of rows.
\<close>

record store =
  items :: "item list"
  memberships :: "membership list"

text \<open>The ordered scale of permission levels: read below write below admin.\<close>

fun level :: "permission \<Rightarrow> nat" where
  "level Read = 0"
| "level Write = 1"
| "level Admin = 2"

definition higher :: "permission \<Rightarrow> permission \<Rightarrow> permission" where
  "higher p q = (if level p \<le> level q then q else p)"

text \<open>
  Modelled from the spec: the item service (\<open>items/db-service.ts\<close>) is not among the
  sources. \<open>get\<close> finds the item with an identifier. The descendants of an item are the
  items whose path is inside its subtree and not its own. The number of levels to the
  farthest child is the greatest difference of depth to a descendant, zero without
  descendants. \<open>move\<close> rewrites the path of the item and of every row scoped under it,
  items and memberships alike (the cascading update of section 6): the prefix that was the
  item's path becomes the destination parent's path, the separator and the item's own
  identifier, or that identifier alone when the destination is the root.
\<close>

definition store_get :: "string \<Rightarrow> store \<Rightarrow> item option" where
  "store_get i st = find (\<lambda>it. item_id it = i) (items st)"

definition descendants :: "item \<Rightarrow> store \<Rightarrow> item list" where
  "descendants it st =
     filter (\<lambda>d. isDescendantOrSelf (item_path d) (item_path it) \<and> item_path d \<noteq> item_path it)
       (items st)"

definition store_getNumberOfDescendants :: "item \<Rightarrow> store \<Rightarrow> nat" where
  "store_getNumberOfDescendants it st = length (descendants it st)"

definition store_getNumberOfLevelsToFarthestChild :: "item \<Rightarrow> store \<Rightarrow> nat" where
  "store_getNumberOfLevelsToFarthestChild it st =
     fold max (map (\<lambda>d. depth (item_path d) - depth (item_path it)) (descendants it st)) 0"

definition pathAfterMove :: "item \<Rightarrow> item option \<Rightarrow> string" where
  "pathAfterMove it parentItem =
     (case parentItem of
        None \<Rightarrow> last (decode (item_path it))
      | Some p \<Rightarrow> item_path p @ sep # last (decode (item_path it)))"

definition rewritePath :: "string \<Rightarrow> string \<Rightarrow> string \<Rightarrow> string" where
  "rewritePath rootBefore rootAfter p =
     (if isDescendantOrSelf p rootBefore then rootAfter @ drop (length rootBefore) p else p)"

definition store_move :: "item \<Rightarrow> store \<Rightarrow> item option \<Rightarrow> store" where
  "store_move it st parentItem =
     (let rootBefore = item_path it; rootAfter = pathAfterMove it parentItem in
      \<lparr>items = map (\<lambda>i. i\<lparr>item_path := rewritePath rootBefore rootAfter (item_path i)\<rparr>) (items st),
       memberships =
         map (\<lambda>m. m\<lparr>itemPath := rewritePath rootBefore rootAfter (itemPath m)\<rparr>) (memberships st)\<rparr>)"

text \<open>
  Modelled from the spec: the membership service (\<open>item-memberships/db-service.ts\<close>) is not
  among the sources. \<open>effectivePermission\<close> (section 4.3): among the subject's memberships
  whose path is a prefix of or equal to the item's path, the one with the longest path,
  and the highest permission among those of that length; none when no membership covers
  the path (the public and item-login overrides are left out, no claim reads them).
  \<open>canWrite\<close> and \<open>canAdmin\<close> compare it with the scale.
\<close>

definition covering :: "string \<Rightarrow> string \<Rightarrow> membership list \<Rightarrow> membership list" where
  "covering subject p ms =
     filter (\<lambda>m. memberId m = subject \<and> isDescendantOrSelf p (itemPath m)) ms"

definition effectivePermission :: "string \<Rightarrow> string \<Rightarrow> membership list \<Rightarrow> permission option" where
  "effectivePermission subject p ms =
     (let cs = covering subject p ms;
          longest = fold max (map (\<lambda>m. length (itemPath m)) cs) 0;
          best = filter (\<lambda>m. length (itemPath m) = longest) cs
      in case best of
           [] \<Rightarrow> None
         | m # rest \<Rightarrow> Some (fold higher (map permission rest) (permission m)))"

definition grants :: "permission option \<Rightarrow> permission \<Rightarrow> bool" where
  "grants held needed = (case held of None \<Rightarrow> False | Some q \<Rightarrow> level needed \<le> level q)"

definition store_canWrite :: "member \<Rightarrow> item \<Rightarrow> store \<Rightarrow> bool" where
  "store_canWrite m it st =
     grants (effectivePermission (member_id m) (item_path it) (memberships st)) Write"

definition store_canAdmin :: "member \<Rightarrow> item \<Rightarrow> store \<Rightarrow> bool" where
  "store_canAdmin m it st =
     grants (effectivePermission (member_id m) (item_path it) (memberships st)) Admin"

text \<open>
  Modelled from the spec: \<open>computeMoveHousekeeping\<close> (section 4.3) of the membership
  service, which is not among the sources. What the new ancestor chain grants a subject is
  the subject's effective permission on the parent of the path after the move, none at
  the root. Insert: for every subject with no membership on the subtree root itself whose
  access there was inherited, when the new chain does not grant that permission or a higher
  one, a membership on the root's new path with the permission that was effective.
  Delete: every membership on the subtree root or below it whose subject the new chain
  grants an equal or higher permission. Both are decided on the memberships as they are
  before the move; a delete names its row by the path the row has after the move, as the
  comment above \<open>moveItem\<close> says, since it is applied after the paths are rewritten.
  \<open>createMany\<close> adds rows, \<open>deleteManyMatching\<close> removes the rows of the same subject and
  path as one of its arguments.
\<close>

definition inheritedAfter :: "string \<Rightarrow> string \<Rightarrow> membership list \<Rightarrow> permission option" where
  "inheritedAfter subject rootAfter ms =
     (case parentPath_of rootAfter of
        None \<Rightarrow> None
      | Some pp \<Rightarrow> effectivePermission subject pp ms)"

definition computeMoveHousekeeping ::
  "string \<Rightarrow> string \<Rightarrow> member \<Rightarrow> membership list \<Rightarrow> membership list \<times> membership list" where
  "computeMoveHousekeeping rootBefore rootAfter act ms =
     (let inserts =
            concat (map (\<lambda>s.
              if \<exists>m \<in> set ms. memberId m = s \<and> itemPath m = rootBefore then []
              else (case effectivePermission s rootBefore ms of
                      None \<Rightarrow> []
                    | Some p \<Rightarrow>
                        if grants (inheritedAfter s rootAfter ms) p then []
                        else [\<lparr>memberId = s, itemPath = rootAfter, permission = p\<rparr>]))
              (remdups (map memberId ms)));
          deletes =
            map (\<lambda>m. m\<lparr>itemPath := rewritePath rootBefore rootAfter (itemPath m)\<rparr>)
              (filter (\<lambda>m. isDescendantOrSelf (itemPath m) rootBefore
                            \<and> grants (inheritedAfter (memberId m) rootAfter ms) (permission m))
                 ms)
      in (inserts, deletes))"

definition store_moveHousekeeping ::
  "item \<Rightarrow> member \<Rightarrow> store \<Rightarrow> item option \<Rightarrow> membership list \<times> membership list" where
  "store_moveHousekeeping it act st parentItem =
     computeMoveHousekeeping (item_path it) (pathAfterMove it parentItem) act (memberships st)"

definition store_createMany :: "membership list \<Rightarrow> store \<Rightarrow> store" where
  "store_createMany ins st = st\<lparr>memberships := memberships st @ ins\<rparr>"

definition store_deleteManyMatching :: "membership list \<Rightarrow> store \<Rightarrow> store" where
  "store_deleteManyMatching dels st =
     st\<lparr>memberships :=
          filter (\<lambda>m. \<not> (\<exists>d \<in> set dels. memberId d = memberId m \<and> itemPath d = itemPath m))
            (memberships st)\<rparr>"

definition store_services :: "store services" where
  "store_services =
     \<lparr>itemService_get = store_get,
      itemService_getNumberOfDescendants = store_getNumberOfDescendants,
      itemService_getNumberOfLevelsToFarthestChild = store_getNumberOfLevelsToFarthestChild,
      itemService_move = store_move,
      itemMembershipService_canAdmin = store_canAdmin,
      itemMembershipService_canWrite = store_canWrite,
      itemMembershipService_moveHousekeeping = store_moveHousekeeping,
      itemMembershipService_createMany = store_createMany,
      itemMembershipService_deleteManyMatching = store_deleteManyMatching\<rparr>"

section \<open>POST /password/nouser\<close>

text \<open>
  The handler of lines 99-118 of the password plugin. \<open>reply.status\<close> sets the status code
  of the reply; the reply also keeps the codes it was given, oldest first. The member
  service and the password service are not among the sources: \<open>getByEmail\<close> reads,
  \<open>validate\<close> and \<open>post\<close> write inside the transaction and may throw, and a throw leaves
  the repositories as they were before the transaction.
\<close>

definition OK_200 :: nat where "OK_200 = 200"
definition NO_CONTENT :: nat where "NO_CONTENT = 204"
definition NOT_FOUND :: nat where "NOT_FOUND = 404"

record reply =
  statusCode :: nat
  statusCalls :: "nat list"

definition reply_status :: "nat \<Rightarrow> reply \<Rightarrow> reply" where
  "reply_status code r = r\<lparr>statusCode := code, statusCalls := statusCalls r @ [code]\<rparr>"

definition new_reply :: reply where
  "new_reply = \<lparr>statusCode = OK_200, statusCalls = []\<rparr>"

record ('r, 'e) password_services =
  memberService_getByEmail :: "'r \<Rightarrow> string \<Rightarrow> member option"
  memberService_validate :: "string \<Rightarrow> 'r \<Rightarrow> 'e + 'r"
  memberPasswordService_post :: "member \<Rightarrow> 'r \<Rightarrow> string \<Rightarrow> 'e + 'r"

definition post_password_nouser ::
  "('r, 'e) password_services \<Rightarrow> string \<Rightarrow> string \<Rightarrow> reply \<Rightarrow> 'r
     \<Rightarrow> ('e + unit) \<times> reply \<times> 'r" where
  "post_password_nouser ps email password rep repos =
     (case memberService_getByEmail ps repos email of
        Some m \<Rightarrow>
          (case memberService_validate ps (member_id m) repos of
             Inl e \<Rightarrow> (Inl e, rep, repos)
           | Inr r1 \<Rightarrow>
               (case memberPasswordService_post ps m r1 password of
                  Inl e \<Rightarrow> (Inl e, rep, repos)
                | Inr r2 \<Rightarrow> (Inr (), reply_status NO_CONTENT rep, r2)))
      | None \<Rightarrow>
          (Inr (), reply_status NO_CONTENT (reply_status NOT_FOUND rep), repos))"

section \<open>The errors the specification lists for a move\<close>

text \<open>The five kinds of error the specification lists for a move.\<close>

definition listed_move_error :: "graasp_error \<Rightarrow> bool" where
  "listed_move_error e =
     (case e of
        ItemNotFound _ \<Rightarrow> True
      | UserCannotAdminItem _ \<Rightarrow> True
      | UserCannotWriteItem _ \<Rightarrow> True
      | InvalidMoveTarget _ \<Rightarrow> True
      | HierarchyTooDeep \<Rightarrow> True
      | _ \<Rightarrow> False)"

text \<open>
  The item a task moves its target under, as \<open>run\<close> finds it: the item with the identifier
  \<open>parentItemId\<close> when that is given and not empty, none for a move to the root.
\<close>

definition destination :: "'db services \<Rightarrow> move_item_task \<Rightarrow> 'db \<Rightarrow> item option" where
  "destination sv task d =
     (case (if truthy (parentItemId task) then parentItemId task else None) of
        None \<Rightarrow> None
      | Some pid \<Rightarrow> itemService_get sv pid d)"

section \<open>Creating an item\<close>



definition assertInsertableParent :: "item option \<Rightarrow> graasp_error + unit" where
  "assertInsertableParent parentItem =
     (case parentItem of
        None \<Rightarrow> Inr ()
      | Some p \<Rightarrow> if item_type p = Folder then Inr () else Inl (ItemNotFolder (item_id p)))"





section \<open>Validation of the bulk routes\<close>

text \<open>
  \<open>fluent-schema.ts\<close>: the querystring of \<open>deleteMany\<close>, \<open>moveMany\<close> and \<open>copyMany\<close> is an
  object whose property \<open>id\<close> is an array of at most \<open>MAX_TARGETS_FOR_MODIFY_REQUEST\<close> items,
  extended with \<open>idsQuery\<close>; \<open>moveMany\<close> and \<open>copyMany\<close> also constrain the body, to an
  object with a \<open>parentId\<close> that is a \<open>uuid\<close>. The constant comes from \<open>util/config\<close> and
  \<open>idsQuery\<close> and \<open>uuid\<close> from \<open>schemas/fluent-schema\<close>, none of them among the sources:
  the constant is a parameter, and so are what \<open>idsQuery\<close> asks of the \<open>id\<close> property and
  what the body schema asks of the body. The \<open>id\<close> property of a querystring is the list
  of its values, none when the property is absent.
\<close>

record 'b request =
  query_id :: "string list option"
  body :: 'b

record 'b route_schema =
  querystring :: "string list option \<Rightarrow> bool"
  body_schema :: "'b \<Rightarrow> bool"

text \<open>The \<open>maxItems\<close> keyword: an array is valid if it has at most that many items.\<close>

definition maxItems :: "nat \<Rightarrow> 'a list \<Rightarrow> bool" where
  "maxItems n xs = (length xs \<le> n)"

definition ids_querystring :: "nat \<Rightarrow> (string list option \<Rightarrow> bool) \<Rightarrow> string list option \<Rightarrow> bool" where
  "ids_querystring maxTargets idsQuery q =
     ((case q of None \<Rightarrow> True | Some ids \<Rightarrow> maxItems maxTargets ids) \<and> idsQuery q)"

definition deleteMany :: "nat \<Rightarrow> (string list option \<Rightarrow> bool) \<Rightarrow> 'b route_schema" where
  "deleteMany maxTargets idsQuery =
     \<lparr>querystring = ids_querystring maxTargets idsQuery, body_schema = (\<lambda>b. True)\<rparr>"

definition moveMany ::
  "nat \<Rightarrow> (string list option \<Rightarrow> bool) \<Rightarrow> ('b \<Rightarrow> bool) \<Rightarrow> 'b route_schema" where
  "moveMany maxTargets idsQuery parentIdBody =
     \<lparr>querystring = ids_querystring maxTargets idsQuery, body_schema = parentIdBody\<rparr>"

definition copyMany ::
  "nat \<Rightarrow> (string list option \<Rightarrow> bool) \<Rightarrow> ('b \<Rightarrow> bool) \<Rightarrow> 'b route_schema" where
  "copyMany maxTargets idsQuery parentIdBody =
     \<lparr>querystring = ids_querystring maxTargets idsQuery, body_schema = parentIdBody\<rparr>"

text \<open>
  A route with a schema: the framework validates the request before it calls the handler,
  and answers a request that fails validation with 400 Bad Request itself. The handlers of
  the bulk routes are not among the sources: the handler is a parameter, from the
  request and the store to the response and the new store.
\<close>

datatype 'r response = BadRequest | Handled 'r

definition validates :: "'b route_schema \<Rightarrow> 'b request \<Rightarrow> bool" where
  "validates sch req = (querystring sch (query_id req) \<and> body_schema sch (body req))"

definition route ::
  "'b route_schema \<Rightarrow> ('b request \<Rightarrow> 'st \<Rightarrow> 'r \<times> 'st) \<Rightarrow> 'b request \<Rightarrow> 'st
     \<Rightarrow> 'r response \<times> 'st" where
  "route sch handler req st =
     (if validates sch req
      then (case handler req st of (r, st') \<Rightarrow> (Handled r, st'))
      else (BadRequest, st))"


section \<open>The bulk routes\<close>

text \<open>
  Modelled from the spec: the handlers of \<open>POST /items/move\<close>, \<open>DELETE /items\<close> and
  \<open>POST /items/copy\<close> and the coordinator behind them are not among the sources; their
  route tests are. From section 4.5: the operation is applied to each target in turn, and
  a target that fails leaves the store as it was for that target and the others to
  proceed. From the route tests: every request that passes validation is answered with
  202 Accepted and the list of its identifiers, and the state is looked at once the work
  is done; when an identifier of the request has no item, no target of the request is
  changed (\<open>Fail to move items if one item does not exist\<close>, \<open>Fail to copy if one item
  does not exist\<close>, \<open>Does not delete items if item does not exist\<close>), so the targets are
  fetched first and a missing one ends the request. The body of a move or a copy is its
  \<open>parentId\<close>, none when the body has no such property.
\<close>

definition ACCEPTED :: nat where
  "ACCEPTED = 202"

definition targets :: "'b request \<Rightarrow> string list" where
  "targets req = (case query_id req of None \<Rightarrow> [] | Some ids \<Rightarrow> ids)"

fun moveEach ::
  "config \<Rightarrow> 'db services \<Rightarrow> member \<Rightarrow> string list \<Rightarrow> string option \<Rightarrow> 'db world \<Rightarrow> 'db world" where
  "moveEach cfg sv act [] parentId w = w"
| "moveEach cfg sv act (i # ids) parentId w =
     moveEach cfg sv act ids parentId (snd (snd (run cfg sv (MoveItemTask act i parentId) w)))"

definition postItemsMove ::
  "config \<Rightarrow> 'db services \<Rightarrow> member \<Rightarrow> string option request \<Rightarrow> 'db world
     \<Rightarrow> (nat \<times> string list) \<times> 'db world" where
  "postItemsMove cfg sv act req w =
     ((ACCEPTED, targets req),
      (if \<exists>i \<in> set (targets req). itemService_get sv i (db w) = None then w
       else moveEach cfg sv act (targets req) (body req) w))"

text \<open>
  Modelled from the spec: the deletion of an item (section 4.4) is not among the sources.
  The actor needs admin rights on the item; the item, its subtree and the memberships
  scoped under it are removed.
\<close>

definition deleteItem :: "member \<Rightarrow> string \<Rightarrow> store \<Rightarrow> graasp_error + store" where
  "deleteItem act i st =
     (case store_get i st of
        None \<Rightarrow> Inl (ItemNotFound i)
      | Some it \<Rightarrow>
          if \<not> store_canAdmin act it st then Inl (UserCannotAdminItem i)
          else Inr \<lparr>items =
                      filter (\<lambda>d. \<not> isDescendantOrSelf (item_path d) (item_path it)) (items st),
                    memberships =
                      filter (\<lambda>m. \<not> isDescendantOrSelf (itemPath m) (item_path it))
                        (memberships st)\<rparr>)"

fun deleteEach :: "member \<Rightarrow> string list \<Rightarrow> store \<Rightarrow> store" where
  "deleteEach act [] st = st"
| "deleteEach act (i # ids) st =
     deleteEach act ids (case deleteItem act i st of Inl e \<Rightarrow> st | Inr st' \<Rightarrow> st')"

definition deleteItems :: "member \<Rightarrow> unit request \<Rightarrow> store \<Rightarrow> (nat \<times> string list) \<times> store" where
  "deleteItems act req st =
     ((ACCEPTED, targets req),
      (if \<exists>i \<in> set (targets req). store_get i st = None then st
       else deleteEach act (targets req) st))"

text \<open>
  Modelled from the spec: the copy of an item (section 4.4) is not among the sources. The
  actor needs read access to the source and write access to the destination, which is a
  folder or the root. Every item of the subtree is duplicated with a fresh identifier
  (the generator of identifiers is a parameter) and a path recomputed under the
  destination from the new identifiers; the memberships of the source are not copied, and
  the actor gets an admin membership on the copy unless the destination gives it by
  inheritance. The name of the copy of the subtree root is fixed by the route tests, which
  expect it to be the name of the source followed by \<open>(2)\<close> at every destination, also an
  empty one; the names below the root are kept.
\<close>

definition copyName :: "string \<Rightarrow> string" where
  "copyName name = name @ '' (2)''"

definition store_canRead :: "member \<Rightarrow> item \<Rightarrow> store \<Rightarrow> bool" where
  "store_canRead m it st =
     grants (effectivePermission (member_id m) (item_path it) (memberships st)) Read"

definition copiedPath :: "(string \<Rightarrow> string) \<Rightarrow> item \<Rightarrow> item option \<Rightarrow> string \<Rightarrow> string" where
  "copiedPath fresh it parentItem p =
     (let relative = drop (depth (item_path it) - 1) (decode p);
          copied = encode (map fresh relative)
      in case parentItem of
           None \<Rightarrow> copied
         | Some d \<Rightarrow> item_path d @ sep # copied)"

definition copySubtree :: "member \<Rightarrow> (string \<Rightarrow> string) \<Rightarrow> item \<Rightarrow> item option \<Rightarrow> store \<Rightarrow> store" where
  "copySubtree act fresh it parentItem st =
     (let copies =
            map (\<lambda>d. \<lparr>item_id = fresh (item_id d),
                       item_name = (if item_path d = item_path it then copyName (item_name d)
                                    else item_name d),
                       item_path = copiedPath fresh it parentItem (item_path d),
                       item_type = item_type d\<rparr>)
              (filter (\<lambda>d. isDescendantOrSelf (item_path d) (item_path it)) (items st));
          rootPath = copiedPath fresh it parentItem (item_path it)
      in \<lparr>items = items st @ copies,
          memberships = memberships st
            @ (if grants (effectivePermission (member_id act) rootPath (memberships st)) Admin
               then []
               else [\<lparr>memberId = member_id act, itemPath = rootPath, permission = Admin\<rparr>])\<rparr>)"

definition copyItem ::
  "member \<Rightarrow> (string \<Rightarrow> string) \<Rightarrow> string \<Rightarrow> string option \<Rightarrow> store \<Rightarrow> graasp_error + store" where
  "copyItem act fresh i parentId st =
     (case store_get i st of
        None \<Rightarrow> Inl (ItemNotFound i)
      | Some it \<Rightarrow>
          if \<not> store_canRead act it st then Inl (MemberCannotAccess i)
          else
            (case parentId of
               None \<Rightarrow> Inr (copySubtree act fresh it None st)
             | Some pid \<Rightarrow>
                 (case store_get pid st of
                    None \<Rightarrow> Inl (ItemNotFound pid)
                  | Some p \<Rightarrow>
                      if \<not> store_canWrite act p st then Inl (UserCannotWriteItem pid)
                      else
                        (case assertInsertableParent (Some p) of
                           Inl e \<Rightarrow> Inl e
                         | Inr _ \<Rightarrow> Inr (copySubtree act fresh it (Some p) st)))))"

fun copyEach ::
  "member \<Rightarrow> (string \<Rightarrow> string) \<Rightarrow> string list \<Rightarrow> string option \<Rightarrow> store \<Rightarrow> store" where
  "copyEach act fresh [] parentId st = st"
| "copyEach act fresh (i # ids) parentId st =
     copyEach act fresh ids parentId
       (case copyItem act fresh i parentId st of Inl e \<Rightarrow> st | Inr st' \<Rightarrow> st')"

definition postItemsCopy ::
  "member \<Rightarrow> (string \<Rightarrow> string) \<Rightarrow> string option request \<Rightarrow> store
     \<Rightarrow> (nat \<times> string list) \<times> store" where
  "postItemsCopy act fresh req st =
     ((ACCEPTED, targets req),
      (if \<exists>i \<in> set (targets req). store_get i st = None then st
       else copyEach act fresh (targets req) (body req) st))"

section \<open>The route tests of the bulk routes\<close>

text \<open>
  The route tests, with the route under test as a parameter. The store a test builds with
  \<open>saveItemAndMembership\<close> and \<open>saveNbOfItems\<close> (lines 228-253) is written out: an item saved
  with its membership is a folder with an admin membership of the member, and
  \<open>saveNbOfItems\<close> names its items \<open>item 0\<close>, \<open>item 1\<close>, and so on. The identifiers, random
  in the tests, are fixed here. The sibling order of an item is not in the model, and what
  the tests expect of it is left out.
\<close>

definition test_actor :: member where
  "test_actor = \<lparr>member_id = ''actor''\<rparr>"

definition saved_root_item :: "string \<Rightarrow> string \<Rightarrow> item" where
  "saved_root_item i name = \<lparr>item_id = i, item_name = name, item_path = i, item_type = Folder\<rparr>"

definition saved_membership :: "member \<Rightarrow> item \<Rightarrow> membership" where
  "saved_membership m it =
     \<lparr>memberId = member_id m, itemPath = item_path it, permission = Admin\<rparr>"

definition three_items :: "item list" where
  "three_items =
     [saved_root_item ''i0'' ''item 0'', saved_root_item ''i1'' ''item 1'',
      saved_root_item ''i2'' ''item 2'']"

definition parent_and_three_items :: store where
  "parent_and_three_items =
     \<lparr>items = saved_root_item ''parent'' ''parent folder'' # three_items,
      memberships =
        map (saved_membership test_actor) (saved_root_item ''parent'' ''parent folder'' # three_items)\<rparr>"

text \<open>
  \<open>Fail to move items if one item does not exist\<close> (lines 2961-2985): the three items and an
  identifier without item are moved under the parent; the answer is 202 and afterwards
  each of the three items exists with a path that does not start with the parent's.
\<close>

definition test_fail_to_move_if_one_item_does_not_exist ::
  "(member \<Rightarrow> string option request \<Rightarrow> store world \<Rightarrow> (nat \<times> string list) \<times> store world)
     \<Rightarrow> bool" where
  "test_fail_to_move_if_one_item_does_not_exist post =
     (case post test_actor
             \<lparr>query_id = Some (map item_id three_items @ [''no-such-item'']),
              body = Some ''parent''\<rparr>
             \<lparr>db = parent_and_three_items, calls = []\<rparr> of
        ((code, ids), w) \<Rightarrow>
          code = ACCEPTED
          \<and> list_all (\<lambda>it. case store_get (item_id it) (db w) of
                               None \<Rightarrow> False
                             | Some result \<Rightarrow> \<not> prefix ''parent'' (item_path result))
               three_items)"

text \<open>
  \<open>Does not delete items if item does not exist\<close> (lines 2737-2759): the test deletes two
  items (one of them with a child) and an identifier without item, and expects 202; of the
  items that remain it only expects that each is among them, which holds of any list.
\<close>

definition two_items_and_child :: store where
  "two_items_and_child =
     \<lparr>items = [saved_root_item ''item1'' ''item 1'', saved_root_item ''item2'' ''item 2'',
               \<lparr>item_id = ''child'', item_name = ''child'', item_path = ''item1.child'',
                item_type = Folder\<rparr>],
      memberships =
        [saved_membership test_actor (saved_root_item ''item1'' ''item 1''),
         saved_membership test_actor (saved_root_item ''item2'' ''item 2''),
         \<lparr>memberId = ''actor'', itemPath = ''item1.child'', permission = Admin\<rparr>]\<rparr>"

definition test_does_not_delete_items_if_item_does_not_exist ::
  "(member \<Rightarrow> unit request \<Rightarrow> store \<Rightarrow> (nat \<times> string list) \<times> store) \<Rightarrow> bool" where
  "test_does_not_delete_items_if_item_does_not_exist delete =
     (case delete test_actor
             \<lparr>query_id = Some [''item1'', ''item2'', ''no-such-item''], body = ()\<rparr>
             two_items_and_child of
        ((code, ids), st) \<Rightarrow>
          code = ACCEPTED
          \<and> list_all (\<lambda>it. find (\<lambda>this. item_id this = item_id it) (items st) \<noteq> None)
               (items st))"

text \<open>
  \<open>Copy successfully from root to item with admin rights\<close> (lines 3102-3145): the three
  items are copied into the folder \<open>parent\<close>, which has no child and which the actor
  administers. The answer is 202; afterwards there are three items more, for each name of
  the three items exactly one item has that name and exactly one has that name followed by
  \<open>(2)\<close>, and there are as many memberships as before.
\<close>

definition test_copy_from_root_to_item_with_admin_rights ::
  "(member \<Rightarrow> string option request \<Rightarrow> store \<Rightarrow> (nat \<times> string list) \<times> store) \<Rightarrow> bool" where
  "test_copy_from_root_to_item_with_admin_rights post =
     (case post test_actor
             \<lparr>query_id = Some (map item_id three_items), body = Some ''parent''\<rparr>
             parent_and_three_items of
        ((code, ids), st) \<Rightarrow>
          code = ACCEPTED
          \<and> length (items st) = length (items parent_and_three_items) + length three_items
          \<and> list_all (\<lambda>it.
                length (filter (\<lambda>d. item_name d = item_name it) (items st)) = 1
                \<and> length (filter (\<lambda>d. item_name d = item_name it @ '' (2)'') (items st)) = 1)
               three_items
          \<and> length (memberships st) = length (memberships parent_and_three_items))"

text \<open>The generator of identifiers of the examples: the identifier of a copy.\<close>

definition copy_id :: "string \<Rightarrow> string" where
  "copy_id i = i @ ''-copy''"


section \<open>Example data\<close>

text \<open>
  A small tree: folder \<open>p\<close> with child \<open>x\<close>, which has children \<open>y\<close> and \<open>z\<close>, and a second
  root folder \<open>q\<close>. Alice administers both roots, Bob may write in \<open>p\<close>.
\<close>

definition alice :: member where
  "alice = \<lparr>member_id = ''alice''\<rparr>"

definition bob :: member where
  "bob = \<lparr>member_id = ''bob''\<rparr>"

definition example_store :: store where
  "example_store =
     \<lparr>items = [\<lparr>item_id = ''p'', item_name = ''p'', item_path = ''p'', item_type = Folder\<rparr>,
               \<lparr>item_id = ''x'', item_name = ''x'', item_path = ''p.x'', item_type = Folder\<rparr>,
               \<lparr>item_id = ''y'', item_name = ''y'', item_path = ''p.x.y'', item_type = Folder\<rparr>,
               \<lparr>item_id = ''z'', item_name = ''z'', item_path = ''p.x.z'', item_type = Folder\<rparr>,
               \<lparr>item_id = ''q'', item_name = ''q'', item_path = ''q'', item_type = Folder\<rparr>],
      memberships = [\<lparr>memberId = ''alice'', itemPath = ''p'', permission = Admin\<rparr>,
                     \<lparr>memberId = ''bob'', itemPath = ''p'', permission = Write\<rparr>,
                     \<lparr>memberId = ''alice'', itemPath = ''q'', permission = Admin\<rparr>]\<rparr>"

definition example_world :: "store world" where
  "example_world = \<lparr>db = example_store, calls = []\<rparr>"

definition example_config :: config where
  "example_config = \<lparr>MAX_DESCENDANTS_FOR_MOVE = 5, MAX_TREE_LEVELS = 3\<rparr>"

definition small_move_config :: config where
  "small_move_config = \<lparr>MAX_DESCENDANTS_FOR_MOVE = 1, MAX_TREE_LEVELS = 3\<rparr>"

text \<open>
  Password services over a list of members by email: every member validates, and a
  password is stored for every member.
\<close>

definition example_password_services ::
  "((string \<times> member) list, graasp_error) password_services" where
  "example_password_services =
     \<lparr>memberService_getByEmail = (\<lambda>repos email. map_of repos email),
      memberService_validate = (\<lambda>i repos. Inr repos),
      memberPasswordService_post = (\<lambda>m repos password. Inr repos)\<rparr>"


definition item_x :: item where
  "item_x = \<lparr>item_id = ''x'', item_name = ''x'', item_path = ''p.x'', item_type = Folder\<rparr>"

definition item_y :: item where
  "item_y = \<lparr>item_id = ''y'', item_name = ''y'', item_path = ''p.x.y'', item_type = Folder\<rparr>"

definition item_q :: item where
  "item_q = \<lparr>item_id = ''q'', item_name = ''q'', item_path = ''q'', item_type = Folder\<rparr>"





text \<open>
  A third one: the root folder \<open>f\<close>, where Bob is admin, and the root item \<open>g\<close>, on which Bob
  has an explicit write membership. Alice administers both.
\<close>

definition item_f :: item where
  "item_f = \<lparr>item_id = ''f'', item_name = ''f'', item_path = ''f'', item_type = Folder\<rparr>"

definition item_g :: item where
  "item_g = \<lparr>item_id = ''g'', item_name = ''g'', item_path = ''g'', item_type = Document\<rparr>"

definition shared_store :: store where
  "shared_store =
     \<lparr>items = [item_f, item_g],
      memberships = [\<lparr>memberId = ''alice'', itemPath = ''f'', permission = Admin\<rparr>,
                     \<lparr>memberId = ''bob'', itemPath = ''f'', permission = Admin\<rparr>,
                     \<lparr>memberId = ''alice'', itemPath = ''g'', permission = Admin\<rparr>,
                     \<lparr>memberId = ''bob'', itemPath = ''g'', permission = Write\<rparr>]\<rparr>"

definition shared_world :: "store world" where
  "shared_world = \<lparr>db = shared_store, calls = []\<rparr>"

text \<open>
  Parameters of the validation for the examples: a limit of three targets, an \<open>idsQuery\<close>
  that asks for the \<open>id\<close> property, with distinct identifiers that are not empty, and a
  body whose \<open>parentId\<close>, if there is one, is not empty.
\<close>

definition example_idsQuery :: "string list option \<Rightarrow> bool" where
  "example_idsQuery q =
     (case q of None \<Rightarrow> False | Some ids \<Rightarrow> distinct ids \<and> list_all (\<lambda>i. i \<noteq> []) ids)"

definition example_parentIdBody :: "string option \<Rightarrow> bool" where
  "example_parentIdBody b = (case b of None \<Rightarrow> True | Some p \<Rightarrow> p \<noteq> [])"

definition three_targets :: "string option request" where
  "three_targets = \<lparr>query_id = Some [''i0'', ''i1'', ''i2''], body = Some ''parent''\<rparr>"

definition four_targets :: "string option request" where
  "four_targets = \<lparr>query_id = Some [''i0'', ''i1'', ''i2'', ''parent''], body = None\<rparr>"

definition test_world :: "store world" where
  "test_world = \<lparr>db = parent_and_three_items, calls = []\<rparr>"

section \<open>Properties of the password route\<close>

text \<open>
  C10. For every POST /password/nouser request whose email matches no member, the handler
  returns normally with the status 204 No Content: the 404 Not Found it sets in the branch
  of the missing member is overwritten by the 204 set after the branch, and the
  repositories are untouched. A request that sets the password also ends with 204, so the
  status code does not tell the two apart.
\<close>

theorem nouser_missing_member_no_content:
  "(memberService_getByEmail ps repos email = None \<longrightarrow>
      post_password_nouser ps email password rep repos
        = (Inr (),
           rep\<lparr>statusCode := NO_CONTENT,
               statusCalls := statusCalls rep @ [NOT_FOUND, NO_CONTENT]\<rparr>,
           repos))
   \<and> (\<forall>rep' repos'. post_password_nouser ps email password rep repos = (Inr (), rep', repos')
          \<longrightarrow> statusCode rep' = NO_CONTENT)"
  by (auto simp: post_password_nouser_def reply_status_def split: option.splits sum.splits)

theorem nouser_missing_member_no_content_witness:
  "memberService_getByEmail example_password_services [(''a@b.c'', alice)] ''x@y.z'' = None
   \<and> statusCode (fst (snd (post_password_nouser example_password_services ''x@y.z'' ''pw''
                              new_reply [(''a@b.c'', alice)]))) = 204
   \<and> statusCalls (fst (snd (post_password_nouser example_password_services ''x@y.z'' ''pw''
                              new_reply [(''a@b.c'', alice)]))) = [404, 204]
   \<and> statusCode (fst (snd (post_password_nouser example_password_services ''a@b.c'' ''pw''
                              new_reply [(''a@b.c'', alice)]))) = 204"
proof -
  have h: "memberService_getByEmail example_password_services [(''a@b.c'', alice)] ''x@y.z'' = None"
    by (simp add: example_password_services_def)
  have ok: "post_password_nouser example_password_services ''a@b.c'' ''pw'' new_reply
              [(''a@b.c'', alice)]
            = (Inr (), reply_status NO_CONTENT new_reply, [(''a@b.c'', alice)])"
    by (simp add: post_password_nouser_def example_password_services_def)
  from h ok
    nouser_missing_member_no_content
      [of example_password_services "[(''a@b.c'', alice)]" "''x@y.z''" "''pw''" new_reply]
    nouser_missing_member_no_content
      [of example_password_services "[(''a@b.c'', alice)]" "''a@b.c''" "''pw''" new_reply]
  show ?thesis
    by (simp add: NO_CONTENT_def NOT_FOUND_def new_reply_def)
qed

section \<open>Properties of the move task\<close>

text \<open>
  C5, as the specification states it, fails: a move of an item with more than
  \<open>MAX_DESCENDANTS_FOR_MOVE\<close> descendants throws \<open>TooManyDescendants\<close> (lines 39-43), which
  is none of the five listed errors. Here Alice moves \<open>x\<close>, which has two descendants, under
  \<open>q\<close>, with a limit of one.
\<close>

theorem move_error_not_listed:
  "fst (run small_move_config store_services (MoveItemTask alice ''x'' (Some ''q''))
          example_world) = Inl (TooManyDescendants ''x'')
   \<and> \<not> listed_move_error (TooManyDescendants ''x'')"
  by code_simp

text \<open>
  C5, amended. Whatever the services answer, a move that fails does so with one of
  \<open>ItemNotFound\<close> (for the item or for the new parent), \<open>UserCannotAdminItem\<close>,
  \<open>TooManyDescendants\<close>, \<open>InvalidMoveTarget\<close>, \<open>UserCannotWriteItem\<close> or \<open>HierarchyTooDeep\<close>:
  the five listed errors or \<open>TooManyDescendants\<close>.
\<close>

theorem run_fails_only_with:
  assumes "fst (run cfg sv task w) = Inl e"
  shows "e = ItemNotFound (targetId task)
       \<or> e = UserCannotAdminItem (targetId task)
       \<or> e = TooManyDescendants (targetId task)
       \<or> e = InvalidMoveTarget None
       \<or> e = HierarchyTooDeep
       \<or> (\<exists>pid. parentItemId task = Some pid
             \<and> (e = ItemNotFound pid \<or> e = InvalidMoveTarget (Some pid)
                  \<or> e = UserCannotWriteItem pid))"
  using assms
  by (auto simp: run_def Let_def split: option.splits if_splits)

theorem run_fails_only_with_witness:
  "fst (run example_config store_services (MoveItemTask bob ''q'' (Some ''p'')) example_world)
     = Inl (UserCannotAdminItem ''q'')
   \<and> (UserCannotAdminItem ''q'' = ItemNotFound ''q''
       \<or> UserCannotAdminItem ''q'' = UserCannotAdminItem ''q''
       \<or> UserCannotAdminItem ''q'' = TooManyDescendants ''q''
       \<or> UserCannotAdminItem ''q'' = InvalidMoveTarget None
       \<or> UserCannotAdminItem ''q'' = HierarchyTooDeep
       \<or> (\<exists>pid. Some ''p'' = Some pid
             \<and> (UserCannotAdminItem ''q'' = ItemNotFound pid
                  \<or> UserCannotAdminItem ''q'' = InvalidMoveTarget (Some pid)
                  \<or> UserCannotAdminItem ''q'' = UserCannotWriteItem pid)))"
proof -
  have h: "fst (run example_config store_services (MoveItemTask bob ''q'' (Some ''p''))
                  example_world) = Inl (UserCannotAdminItem ''q'')"
    by code_simp
  from h run_fails_only_with [OF h] show ?thesis
    by (simp add: MoveItemTask_def)
qed


text \<open>
  C4. For every successful move of an item, the calls \<open>moveItem\<close> makes are, in this order:
  the membership housekeeping, given the database as it was before the move; the move of
  the item and its subtree; the creation of the computed inserts, if there are any; the
  removal of the computed deletes, if there are any. The database at the end is the moved
  one with the inserts and then the deletes applied.
\<close>

theorem housekeeping_then_move_then_adjust:
  assumes "run cfg sv task w = (Inr (), t', w')"
    and "itemService_get sv (targetId task) (db w) = Some it"
    and "itemMembershipService_moveHousekeeping sv it (actor task) (db w)
           (destination sv task (db w)) = (inserts, deletes)"
  shows "calls w' = calls w
            @ [CallMoveHousekeeping it (db w) (destination sv task (db w)),
               CallMove it (destination sv task (db w))]
            @ (if inserts \<noteq> [] then [CallCreateMany inserts] else [])
            @ (if deletes \<noteq> [] then [CallDeleteManyMatching deletes] else [])
       \<and> db w' =
           (let d1 = itemService_move sv it (db w) (destination sv task (db w));
                d2 = (if inserts \<noteq> [] then itemMembershipService_createMany sv inserts d1
                      else d1)
            in if deletes \<noteq> [] then itemMembershipService_deleteManyMatching sv deletes d2
               else d2)"
  using assms
  by (auto simp: run_def moveItem_def destination_def Let_def split: option.splits if_splits)

theorem housekeeping_then_move_then_adjust_witness:
  "fst (run example_config store_services (MoveItemTask alice ''x'' (Some ''q'')) example_world)
     = Inr ()
   \<and> calls (snd (snd (run example_config store_services (MoveItemTask alice ''x'' (Some ''q''))
                         example_world)))
     = [CallMoveHousekeeping item_x example_store (Some item_q),
        CallMove item_x (Some item_q),
        CallCreateMany [\<lparr>memberId = ''bob'', itemPath = ''q.x'', permission = Write\<rparr>]]"
proof -
  let ?task = "MoveItemTask alice ''x'' (Some ''q'')"
  let ?r = "run example_config store_services ?task example_world"
  have ok: "fst ?r = Inr ()"
    by code_simp
  have h1: "?r = (Inr (), fst (snd ?r), snd (snd ?r))"
    using ok by (metis prod.collapse)
  have h2: "itemService_get store_services (targetId ?task) (db example_world) = Some item_x"
    by code_simp
  have h4: "destination store_services ?task (db example_world) = Some item_q"
    by code_simp
  have h3: "itemMembershipService_moveHousekeeping store_services item_x (actor ?task)
              (db example_world) (destination store_services ?task (db example_world))
            = ([\<lparr>memberId = ''bob'', itemPath = ''q.x'', permission = Write\<rparr>], [])"
    by code_simp
  have db: "db example_world = example_store" and cs: "calls example_world = []"
    by (simp_all add: example_world_def)
  from housekeeping_then_move_then_adjust [OF h1 h2 h3] ok h4 show ?thesis
    by (simp add: db cs)
qed




section \<open>Paths and depth\<close>

lemma decode_not_Nil [simp]: "decode p \<noteq> []"
  by (induction p) auto





lemma decode_no_sep: "x \<in> set (decode p) \<Longrightarrow> sep \<notin> set x"
proof (induction p arbitrary: x)
  case Nil
  then show ?case by simp
next
  case (Cons c cs)
  obtain y ys where d: "decode cs = y # ys"
    by (cases "decode cs") auto
  from Cons d show ?case
    by (auto split: if_splits)
qed











lemma items_createMany [simp]: "items (store_createMany ins st) = items st"
  by (simp add: store_createMany_def)

lemma items_deleteManyMatching [simp]: "items (store_deleteManyMatching dels st) = items st"
  by (simp add: store_deleteManyMatching_def)

lemma items_moveItem:
  "items (db (moveItem store_services act it w par)) = items (store_move it (db w) par)"
  by (simp add: moveItem_def store_services_def Let_def split: prod.splits)



lemma decode_append_sep: "decode (a @ sep # b) = decode a @ decode b"
proof (induction a)
  case Nil
  show ?case by simp
next
  case (Cons c cs)
  obtain y ys where d: "decode cs = y # ys"
    by (cases "decode cs") auto
  with Cons show ?case by simp
qed

lemma encode_decode: "encode (decode p) = p"
proof (induction p)
  case Nil
  show ?case by simp
next
  case (Cons c cs)
  obtain y ys where d: "decode cs = y # ys"
    by (cases "decode cs") auto
  with Cons show ?case
    by (cases ys) auto
qed

lemma decode_single: "sep \<notin> set s \<Longrightarrow> decode s = [s]"
  by (induction s) auto

lemma parentPath_of_child:
  assumes "sep \<notin> set seg"
  shows "parentPath_of (a @ sep # seg) = Some a"
proof -
  obtain y ys where d: "decode a = y # ys"
    by (cases "decode a") auto
  have "decode (a @ sep # seg) = decode a @ [seg]"
    using assms by (simp add: decode_append_sep decode_single)
  moreover have "encode (butlast (decode a @ [seg])) = a"
    by (simp add: encode_decode)
  ultimately show ?thesis
    using d by (cases ys) (simp_all add: parentPath_of_def)
qed

lemma parentPath_of_single: "sep \<notin> set seg \<Longrightarrow> parentPath_of seg = None"
  by (simp add: parentPath_of_def decode_single)

lemma last_decode_no_sep: "sep \<notin> set (last (decode p))"
  by (rule decode_no_sep, rule last_in_set, rule decode_not_Nil)

lemma inheritedAfter_pathAfterMove:
  "inheritedAfter s (pathAfterMove it par) ms =
     (case par of None \<Rightarrow> None | Some p \<Rightarrow> effectivePermission s (item_path p) ms)"
  by (cases par)
     (simp_all add: inheritedAfter_def pathAfterMove_def parentPath_of_child
        parentPath_of_single last_decode_no_sep)

section \<open>Creation, and the checks of depth\<close>




section \<open>The memberships after a move\<close>

lemma memberships_moveItem:
  "memberships (db (moveItem store_services act it w par)) =
     filter (\<lambda>m. \<not> (\<exists>d \<in> set (snd (store_moveHousekeeping it act (db w) par)).
                       memberId d = memberId m \<and> itemPath d = itemPath m))
       (memberships (store_move it (db w) par) @ fst (store_moveHousekeeping it act (db w) par))"
  by (simp add: moveItem_def store_services_def Let_def store_createMany_def
        store_deleteManyMatching_def split: prod.splits)

lemma effective_Some_member:
  assumes "effectivePermission s p ms = Some q"
  shows "s \<in> set (map memberId ms)"
proof -
  let ?cs = "covering s p ms"
  let ?best = "filter (\<lambda>m. length (itemPath m) = fold max (map (\<lambda>m. length (itemPath m)) ?cs) 0) ?cs"
  from assms have "?best \<noteq> []"
    by (auto simp: effectivePermission_def Let_def split: list.splits)
  then obtain m where "m \<in> set ?best"
    by (meson hd_in_set)
  then have "m \<in> set ?cs" by simp
  then show ?thesis by (auto simp: covering_def)
qed

lemma deletes_computeMoveHousekeeping:
  "set (snd (computeMoveHousekeeping b a act ms)) =
     (\<lambda>m. m\<lparr>itemPath := rewritePath b a (itemPath m)\<rparr>) `
       {m \<in> set ms. isDescendantOrSelf (itemPath m) b
                    \<and> grants (inheritedAfter (memberId m) a ms) (permission m)}"
  by (simp add: computeMoveHousekeeping_def Let_def)

lemma inserts_computeMoveHousekeeping:
  assumes "s \<in> set (map memberId ms)"
    and "\<forall>m \<in> set ms. memberId m = s \<longrightarrow> itemPath m \<noteq> b"
    and "effectivePermission s b ms = Some p"
    and "\<not> grants (inheritedAfter s a ms) p"
  shows "\<lparr>memberId = s, itemPath = a, permission = p\<rparr>
           \<in> set (fst (computeMoveHousekeeping b a act ms))"
proof -
  let ?f = "\<lambda>s. if \<exists>m \<in> set ms. memberId m = s \<and> itemPath m = b then []
              else (case effectivePermission s b ms of
                      None \<Rightarrow> []
                    | Some p \<Rightarrow>
                        if grants (inheritedAfter s a ms) p then []
                        else [\<lparr>memberId = s, itemPath = a, permission = p\<rparr>])"
  from assms have "\<lparr>memberId = s, itemPath = a, permission = p\<rparr> \<in> set (?f s)"
    by auto
  moreover from assms have "s \<in> set (remdups (map memberId ms))"
    by simp
  ultimately have "\<lparr>memberId = s, itemPath = a, permission = p\<rparr>
                     \<in> set (concat (map ?f (remdups (map memberId ms))))"
    unfolding set_concat set_map by blast
  then show ?thesis
    by (simp add: computeMoveHousekeeping_def Let_def)
qed

lemma rewritePath_root: "rewritePath b a b = a"
  by (simp add: rewritePath_def isDescendantOrSelf_def)

lemma rewritePath_below:
  assumes "isDescendantOrSelf p b" "p \<noteq> b"
  shows "rewritePath b a p \<noteq> a"
proof -
  from assms obtain rest where "p = b @ sep # rest"
    by (auto simp: isDescendantOrSelf_def prefix_def)
  with assms show ?thesis by (simp add: rewritePath_def)
qed

lemma inherited_membership_created:
  assumes noexp: "\<forall>m \<in> set (memberships (db w)). memberId m = s \<longrightarrow> itemPath m \<noteq> item_path it"
    and eff: "effectivePermission s (item_path it) (memberships (db w)) = Some p"
    and nogrant: "\<not> grants (inheritedAfter s (pathAfterMove it par) (memberships (db w))) p"
  shows "\<lparr>memberId = s, itemPath = pathAfterMove it par, permission = p\<rparr>
           \<in> set (memberships (db (moveItem store_services act it w par)))"
proof -
  let ?ms = "memberships (db w)"
  let ?new = "\<lparr>memberId = s, itemPath = pathAfterMove it par, permission = p\<rparr>"
  have ins: "?new \<in> set (fst (store_moveHousekeeping it act (db w) par))"
    unfolding store_moveHousekeeping_def
    by (rule inserts_computeMoveHousekeeping [OF effective_Some_member [OF eff] noexp eff nogrant])
  have "\<not> (memberId d = s \<and> itemPath d = pathAfterMove it par)"
    if "d \<in> set (snd (store_moveHousekeeping it act (db w) par))" for d
  proof
    assume a: "memberId d = s \<and> itemPath d = pathAfterMove it par"
    from that obtain m where m: "m \<in> set ?ms" "isDescendantOrSelf (itemPath m) (item_path it)"
      and d: "d = m\<lparr>itemPath := rewritePath (item_path it) (pathAfterMove it par) (itemPath m)\<rparr>"
      by (auto simp: store_moveHousekeeping_def deletes_computeMoveHousekeeping)
    from a d have "memberId m = s" by simp
    with noexp m have "itemPath m \<noteq> item_path it" by blast
    from rewritePath_below [OF m(2) this] a d show False by simp
  qed
  with ins show ?thesis
    by (auto simp: memberships_moveItem)
qed

lemma redundant_membership_deleted:
  assumes m0: "m0 \<in> set (memberships (db w))" "memberId m0 = s" "itemPath m0 = item_path it"
    and grant: "grants (inheritedAfter s (pathAfterMove it par) (memberships (db w))) (permission m0)"
  shows "\<forall>m \<in> set (memberships (db (moveItem store_services act it w par))).
           \<not> (memberId m = s \<and> itemPath m = pathAfterMove it par)"
proof -
  let ?d = "m0\<lparr>itemPath := rewritePath (item_path it) (pathAfterMove it par) (itemPath m0)\<rparr>"
  from m0 grant
  have "m0 \<in> {m \<in> set (memberships (db w)). isDescendantOrSelf (itemPath m) (item_path it)
               \<and> grants (inheritedAfter (memberId m) (pathAfterMove it par) (memberships (db w)))
                    (permission m)}"
    by (simp add: isDescendantOrSelf_def)
  then have "?d \<in> set (snd (store_moveHousekeeping it act (db w) par))"
    unfolding store_moveHousekeeping_def deletes_computeMoveHousekeeping by (rule imageI)
  moreover have "memberId ?d = s" "itemPath ?d = pathAfterMove it par"
    using m0 by (simp_all add: rewritePath_root)
  ultimately show ?thesis
    by (auto simp: memberships_moveItem)
qed

lemma moved_item_path:
  assumes "x \<in> set (items (db w))"
  shows "x\<lparr>item_path := pathAfterMove x par\<rparr>
           \<in> set (items (db (moveItem store_services act x w par)))"
proof -
  have "x\<lparr>item_path := rewritePath (item_path x) (pathAfterMove x par) (item_path x)\<rparr>
          \<in> set (items (store_move x (db w) par))"
    using assms by (auto simp: store_move_def Let_def)
  then show ?thesis
    by (simp add: items_moveItem rewritePath_root)
qed

section \<open>The depth bound\<close>




section \<open>Memberships stay minimal across a move\<close>

text \<open>
  C1. Let \<open>x\<close> be moved under \<open>par\<close> (to the root when \<open>par\<close> is none). If subject \<open>s\<close> has no
  membership on \<open>x\<close> itself, the effective permission of \<open>s\<close> on \<open>x\<close> was \<open>p\<close> by inheritance,
  and the destination does not grant \<open>s\<close> the permission \<open>p\<close> or a higher one, then after the
  move there is a membership of \<open>s\<close> on the new path of \<open>x\<close> with permission \<open>p\<close>. If \<open>s\<close> has
  a membership on \<open>x\<close> itself and the destination grants \<open>s\<close> an equal or higher permission,
  then after the move \<open>s\<close> has no membership on the new path of \<open>x\<close>. The new path is the one
  the item \<open>x\<close> has after the move.
\<close>

theorem move_keeps_memberships_minimal:
  "((\<forall>m \<in> set (memberships (db w)). memberId m = s \<longrightarrow> itemPath m \<noteq> item_path x)
      \<and> effectivePermission s (item_path x) (memberships (db w)) = Some p
      \<and> \<not> grants (case par of None \<Rightarrow> None
                     | Some d \<Rightarrow> effectivePermission s (item_path d) (memberships (db w))) p
    \<longrightarrow> \<lparr>memberId = s, itemPath = pathAfterMove x par, permission = p\<rparr>
          \<in> set (memberships (db (moveItem store_services act x w par))))
   \<and> (m0 \<in> set (memberships (db w)) \<and> memberId m0 = s \<and> itemPath m0 = item_path x
      \<and> grants (case par of None \<Rightarrow> None
                   | Some d \<Rightarrow> effectivePermission s (item_path d) (memberships (db w)))
                (permission m0)
    \<longrightarrow> (\<forall>m \<in> set (memberships (db (moveItem store_services act x w par))).
            \<not> (memberId m = s \<and> itemPath m = pathAfterMove x par)))
   \<and> (x \<in> set (items (db w))
    \<longrightarrow> x\<lparr>item_path := pathAfterMove x par\<rparr>
          \<in> set (items (db (moveItem store_services act x w par))))"
  using inherited_membership_created [of w s x p par act]
    redundant_membership_deleted [of m0 w s x par act]
    moved_item_path [of x w par act]
  by (simp add: inheritedAfter_pathAfterMove)

theorem move_keeps_memberships_minimal_witness:
  "effectivePermission ''bob'' (item_path item_x) (memberships example_store) = Some Write
   \<and> \<lparr>memberId = ''bob'', itemPath = ''x'', permission = Write\<rparr>
        \<in> set (memberships (db (moveItem store_services alice item_x example_world None)))
   \<and> \<lparr>memberId = ''bob'', itemPath = ''g'', permission = Write\<rparr> \<in> set (memberships shared_store)
   \<and> effectivePermission ''bob'' (item_path item_f) (memberships shared_store) = Some Admin
   \<and> \<lparr>memberId = ''bob'', itemPath = ''f.g'', permission = Write\<rparr>
        \<notin> set (memberships (db (moveItem store_services alice item_g shared_world
                                     (Some item_f))))"
proof -
  have db: "db example_world = example_store" "db shared_world = shared_store"
    by (simp_all add: example_world_def shared_world_def)
  have a1: "\<forall>m \<in> set (memberships (db example_world)).
              memberId m = ''bob'' \<longrightarrow> itemPath m \<noteq> item_path item_x"
    unfolding db by code_simp
  have a2: "effectivePermission ''bob'' (item_path item_x) (memberships (db example_world))
              = Some Write"
    unfolding db by code_simp
  have a3: "pathAfterMove item_x None = ''x''"
    by code_simp
  have b1: "\<lparr>memberId = ''bob'', itemPath = ''g'', permission = Write\<rparr>
              \<in> set (memberships (db shared_world))"
    unfolding db by code_simp
  have b2: "effectivePermission ''bob'' (item_path item_f) (memberships (db shared_world))
              = Some Admin"
    unfolding db by code_simp
  have b3: "pathAfterMove item_g (Some item_f) = ''f.g''" "item_path item_g = ''g''"
    by code_simp+
  from move_keeps_memberships_minimal
         [of example_world "''bob''" item_x Write None alice _]
       a1 a2 a3
  have 1: "\<lparr>memberId = ''bob'', itemPath = ''x'', permission = Write\<rparr>
             \<in> set (memberships (db (moveItem store_services alice item_x example_world None)))"
    by (simp add: grants_def)
  from move_keeps_memberships_minimal
         [of shared_world "''bob''" item_g Write "Some item_f" alice
             "\<lparr>memberId = ''bob'', itemPath = ''g'', permission = Write\<rparr>"]
       b1 b2 b3
  have 2: "\<forall>m \<in> set (memberships (db (moveItem store_services alice item_g shared_world
                                          (Some item_f)))).
             \<not> (memberId m = ''bob'' \<and> itemPath m = ''f.g'')"
    by (simp add: grants_def)
  from 2 have 3: "\<lparr>memberId = ''bob'', itemPath = ''f.g'', permission = Write\<rparr>
                    \<notin> set (memberships (db (moveItem store_services alice item_g shared_world
                                                 (Some item_f))))"
    by fastforce
  from a2 b1 b2 1 3 show ?thesis
    by (simp add: db)
qed

section \<open>The size limit of the bulk routes\<close>

text \<open>
  C8. A bulk delete, move or copy request with more than \<open>MAX_TARGETS_FOR_MODIFY_REQUEST\<close>
  target identifiers is answered with Bad Request by the validation, whatever the handler
  is, and the store is left as it was. A request with exactly that many identifiers passes
  the limit: when it also meets what \<open>idsQuery\<close> and the body schema ask, it is handed to
  the handler, whose answer and store are the result.
\<close>

theorem bulk_size_limit:
  fixes req :: "'b request" and h :: "'b request \<Rightarrow> 'st \<Rightarrow> 'r \<times> 'st"
  shows
  "(query_id req = Some ids \<and> length ids > maxTargets
      \<longrightarrow> route (deleteMany maxTargets idsQuery) h req st = (BadRequest, st)
        \<and> route (moveMany maxTargets idsQuery parentIdBody) h req st = (BadRequest, st)
        \<and> route (copyMany maxTargets idsQuery parentIdBody) h req st = (BadRequest, st))
   \<and> (query_id req = Some ids \<and> length ids = maxTargets
        \<and> idsQuery (query_id req) \<and> parentIdBody (body req)
      \<longrightarrow> route (deleteMany maxTargets idsQuery) h req st
            = (Handled (fst (h req st)), snd (h req st))
        \<and> route (moveMany maxTargets idsQuery parentIdBody) h req st
            = (Handled (fst (h req st)), snd (h req st))
        \<and> route (copyMany maxTargets idsQuery parentIdBody) h req st
            = (Handled (fst (h req st)), snd (h req st)))"
  by (auto simp: route_def validates_def deleteMany_def moveMany_def copyMany_def
        ids_querystring_def maxItems_def split: prod.splits)

theorem bulk_size_limit_witness:
  "route (moveMany 3 example_idsQuery example_parentIdBody)
     (postItemsMove example_config store_services test_actor) four_targets test_world
     = (BadRequest, test_world)
   \<and> fst (route (moveMany 3 example_idsQuery example_parentIdBody)
            (postItemsMove example_config store_services test_actor) three_targets test_world)
     = Handled (202, [''i0'', ''i1'', ''i2''])
   \<and> map item_path
        (items (db (snd (route (moveMany 3 example_idsQuery example_parentIdBody)
                           (postItemsMove example_config store_services test_actor)
                           three_targets test_world))))
     = [''parent'', ''parent.i0'', ''parent.i1'', ''parent.i2'']"
proof -
  let ?h = "postItemsMove example_config store_services test_actor"
  have a1: "query_id four_targets = Some [''i0'', ''i1'', ''i2'', ''parent'']"
    and a2: "length [''i0'', ''i1'', ''i2'', ''parent''] > (3::nat)"
    by (simp_all add: four_targets_def)
  have b1: "query_id three_targets = Some [''i0'', ''i1'', ''i2'']"
    and b2: "length [''i0'', ''i1'', ''i2''] = (3::nat)"
    and b3: "example_idsQuery (query_id three_targets)"
    and b4: "example_parentIdBody (body three_targets)"
    by (simp_all add: three_targets_def example_idsQuery_def example_parentIdBody_def)
  have c1: "fst (?h three_targets test_world) = (202, [''i0'', ''i1'', ''i2''])"
    by code_simp
  have c2: "map item_path (items (db (snd (?h three_targets test_world))))
              = [''parent'', ''parent.i0'', ''parent.i1'', ''parent.i2'']"
    by code_simp
  from bulk_size_limit [of four_targets "[''i0'', ''i1'', ''i2'', ''parent'']" 3
                           example_idsQuery ?h test_world example_parentIdBody] a1 a2
  have 1: "route (moveMany 3 example_idsQuery example_parentIdBody) ?h four_targets test_world
             = (BadRequest, test_world)"
    by simp
  from bulk_size_limit [of three_targets "[''i0'', ''i1'', ''i2'']" 3
                           example_idsQuery ?h test_world example_parentIdBody] b1 b2 b3 b4
  have 2: "route (moveMany 3 example_idsQuery example_parentIdBody) ?h three_targets test_world
             = (Handled (fst (?h three_targets test_world)), snd (?h three_targets test_world))"
    by simp
  from 1 2 c1 c2 show ?thesis
    by simp
qed

section \<open>A bulk request with a target that does not exist\<close>

text \<open>The models of the bulk routes pass the route tests written out above.\<close>

lemma bulk_routes_pass_route_tests:
  "test_fail_to_move_if_one_item_does_not_exist (postItemsMove example_config store_services)
   \<and> test_does_not_delete_items_if_item_does_not_exist deleteItems
   \<and> test_copy_from_root_to_item_with_admin_rights (\<lambda>act. postItemsCopy act copy_id)"
  by code_simp




section \<open>The name of a copy\<close>






end
